theory Spec2Isabelle
  imports Complex_Main
begin

section \<open>The record table\<close>

text \<open>
  The cleaner of \<^verbatim>\<open>cleaner.py\<close> holds one data frame \<^verbatim>\<open>self.df\<close>, read from a
  delimited file, and replaces it step by step.  A row has the eight named columns.
  The five text columns hold text or null.  The columns \<^verbatim>\<open>id\<close>, \<^verbatim>\<open>birth_year\<close> and
  \<^verbatim>\<open>income\<close> hold whatever the reader typed them as (integers, floating point
  numbers or text) or null; the two casts of the source work on these cells.

  Floating point numbers are modelled as rationals: every finite double is one, and the
  arithmetic of the outlier fence is taken without rounding.  Text is a list of 8-bit
  characters and the character classes below are the ASCII ones.
\<close>

datatype cell = IntV int | FloatV rat | StrV string

record row =
  row_id :: "cell option"
  first_name :: "string option"
  last_name :: "string option"
  email :: "string option"
  birth_year :: "cell option"
  country :: "string option"
  gender :: "string option"
  income :: "cell option"

type_synonym table = "row list"

datatype column =
  Id | First_name | Last_name | Email | Birth_year | Country | Gender | Income

fun is_null :: "column \<Rightarrow> row \<Rightarrow> bool" where
  "is_null Id r = (row_id r = None)"
| "is_null First_name r = (first_name r = None)"
| "is_null Last_name r = (last_name r = None)"
| "is_null Email r = (email r = None)"
| "is_null Birth_year r = (birth_year r = None)"
| "is_null Country r = (country r = None)"
| "is_null Gender r = (gender r = None)"
| "is_null Income r = (income r = None)"

section \<open>The cleaner object, its log and its failures\<close>

text \<open>
  Every method of \<^verbatim>\<open>DataCleaner\<close> opens with one log line that names the step; the
  model keeps that line of the log.  \<open>saved\<close> is the content of the output file as
  this object wrote it (\<open>None\<close>: not written).  A library call that raises ends the
  run: the outcome \<open>Raised\<close> carries the exception and the object as the exception
  left it.
\<close>

datatype step =
  Initial_summary | Drop_nulls | Remove_duplicates | Clean_names | Clean_email
  | Clean_birth_year | Clean_income | Standardize_country_gender | Save

record cleaner =
  df :: table
  logged :: "step list"
  saved :: "table option"

datatype error = CastError | TypeError

datatype outcome = Completed cleaner | Raised error cleaner

definition logger_info :: "step \<Rightarrow> cleaner \<Rightarrow> cleaner" where
  "logger_info m s = s\<lparr>logged := logged s @ [m]\<rparr>"

definition and_then :: "outcome \<Rightarrow> (cleaner \<Rightarrow> outcome) \<Rightarrow> outcome" where
  "and_then r f = (case r of Completed s \<Rightarrow> f s | Raised e s \<Rightarrow> Raised e s)"

section \<open>Text operations of the library\<close>

text \<open>
  \<^verbatim>\<open>str.strip_chars()\<close> without argument removes leading and trailing white space,
  \<^verbatim>\<open>str.to_lowercase()\<close> and \<^verbatim>\<open>str.to_uppercase()\<close> map the letters.
\<close>

definition is_whitespace :: "char \<Rightarrow> bool" where
  "is_whitespace c = (let n = (of_char c :: nat) in (9 \<le> n \<and> n \<le> 13) \<or> n = 32)"

definition is_upper :: "char \<Rightarrow> bool" where
  "is_upper c = (let n = (of_char c :: nat) in 65 \<le> n \<and> n \<le> 90)"

definition is_lower :: "char \<Rightarrow> bool" where
  "is_lower c = (let n = (of_char c :: nat) in 97 \<le> n \<and> n \<le> 122)"

definition is_digit :: "char \<Rightarrow> bool" where
  "is_digit c = (let n = (of_char c :: nat) in 48 \<le> n \<and> n \<le> 57)"

definition lower_char :: "char \<Rightarrow> char" where
  "lower_char c = (if is_upper c then char_of ((of_char c :: nat) + 32) else c)"

definition upper_char :: "char \<Rightarrow> char" where
  "upper_char c = (if is_lower c then char_of ((of_char c :: nat) - 32) else c)"

definition strip_chars :: "string \<Rightarrow> string" where
  "strip_chars s = rev (dropWhile is_whitespace (rev (dropWhile is_whitespace s)))"

definition to_lowercase :: "string \<Rightarrow> string" where
  "to_lowercase s = map lower_char s"

definition to_uppercase :: "string \<Rightarrow> string" where
  "to_uppercase s = map upper_char s"

section \<open>Regular expressions\<close>

text \<open>
  The pattern language as far as the source uses it: character classes, sequence and
  repetition.  \<open>matches\<close> decides a match of the whole text (the pattern of the source is
  anchored with \<^verbatim>\<open>^\<close> and \<^verbatim>\<open>$\<close>) by taking derivatives; \<open>lang\<close> is the set of texts a
  pattern denotes.
\<close>

datatype rx =
  Zero | One | Sym "char \<Rightarrow> bool" | Alt rx rx | Seq rx rx | Star rx

definition Plus_rx :: "rx \<Rightarrow> rx" where
  "Plus_rx r = Seq r (Star r)"

inductive_set star :: "string set \<Rightarrow> string set" for A :: "string set" where
  star_nil: "[] \<in> star A"
| star_app: "u \<in> A \<Longrightarrow> v \<in> star A \<Longrightarrow> u @ v \<in> star A"

fun lang :: "rx \<Rightarrow> string set" where
  "lang Zero = {}"
| "lang One = {[]}"
| "lang (Sym p) = {[c] | c. p c}"
| "lang (Alt r s) = lang r \<union> lang s"
| "lang (Seq r s) = {u @ v | u v. u \<in> lang r \<and> v \<in> lang s}"
| "lang (Star r) = star (lang r)"

fun nullable :: "rx \<Rightarrow> bool" where
  "nullable Zero = False"
| "nullable One = True"
| "nullable (Sym p) = False"
| "nullable (Alt r s) = (nullable r \<or> nullable s)"
| "nullable (Seq r s) = (nullable r \<and> nullable s)"
| "nullable (Star r) = True"

fun deriv :: "char \<Rightarrow> rx \<Rightarrow> rx" where
  "deriv c Zero = Zero"
| "deriv c One = Zero"
| "deriv c (Sym p) = (if p c then One else Zero)"
| "deriv c (Alt r s) = Alt (deriv c r) (deriv c s)"
| "deriv c (Seq r s) =
     (if nullable r then Alt (Seq (deriv c r) s) (deriv c s) else Seq (deriv c r) s)"
| "deriv c (Star r) = Seq (deriv c r) (Star r)"

fun matches :: "rx \<Rightarrow> string \<Rightarrow> bool" where
  "matches r [] = nullable r"
| "matches r (c # cs) = matches (deriv c r) cs"

text \<open>The pattern \<^verbatim>\<open>^[\w\.-]+@[\w\.-]+\.\w+$\<close> of \<^verbatim>\<open>clean_email\<close>.\<close>

definition word_char :: "char \<Rightarrow> bool" where
  "word_char c = (is_upper c \<or> is_lower c \<or> is_digit c \<or> c = CHR ''_'')"

definition name_char :: "char \<Rightarrow> bool" where
  "name_char c = (word_char c \<or> c = CHR ''.'' \<or> c = CHR ''-'')"

definition email_pattern :: rx where
  "email_pattern =
     Seq (Plus_rx (Sym name_char))
       (Seq (Sym (\<lambda>c. c = CHR ''@''))
         (Seq (Plus_rx (Sym name_char))
           (Seq (Sym (\<lambda>c. c = CHR ''.'')) (Plus_rx (Sym word_char)))))"

definition str_contains :: "rx \<Rightarrow> string option \<Rightarrow> bool" where
  "str_contains r v = (case v of None \<Rightarrow> False | Some s \<Rightarrow> matches r s)"

section \<open>Casts of the library\<close>

text \<open>
  \<^verbatim>\<open>cast\<close> is strict by default: it raises when one value of the column cannot be
  converted, and leaves null as null.  Text is read as a number in plain decimal
  notation with an optional sign (the further notations the library reads for floating
  point numbers, an exponent or an infinity, are left out); a floating point number is
  cut to an integer towards zero; an integer outside the 32-bit range cannot be
  converted to \<^verbatim>\<open>Int32\<close>.
\<close>

definition parse_nat :: "string \<Rightarrow> nat option" where
  "parse_nat s =
     (if s \<noteq> [] \<and> list_all is_digit s
      then Some (foldl (\<lambda>a c. 10 * a + ((of_char c :: nat) - 48)) 0 s) else None)"

definition parse_int :: "string \<Rightarrow> int option" where
  "parse_int s =
     (case s of
        [] \<Rightarrow> None
      | c # t \<Rightarrow>
          if c = CHR ''-'' then map_option (\<lambda>n. - int n) (parse_nat t)
          else if c = CHR ''+'' then map_option int (parse_nat t)
          else map_option int (parse_nat s))"

definition parse_decimal :: "string \<Rightarrow> rat option" where
  "parse_decimal s =
     (let whole = takeWhile is_digit s; rest = dropWhile is_digit s in
      case parse_nat whole of
        None \<Rightarrow> None
      | Some w \<Rightarrow>
          (case rest of
             [] \<Rightarrow> Some (of_nat w)
           | c # ds \<Rightarrow>
               if c = CHR ''.'' then
                 map_option (\<lambda>f. of_nat w + of_nat f / 10 ^ length ds) (parse_nat ds)
               else None))"

definition parse_float :: "string \<Rightarrow> rat option" where
  "parse_float s =
     (case s of
        [] \<Rightarrow> None
      | c # t \<Rightarrow>
          if c = CHR ''-'' then map_option uminus (parse_decimal t)
          else if c = CHR ''+'' then parse_decimal t
          else parse_decimal s)"

definition in_int32 :: "int \<Rightarrow> int option" where
  "in_int32 i = (if - (2 ^ 31) \<le> i \<and> i < 2 ^ 31 then Some i else None)"

definition truncate :: "rat \<Rightarrow> int" where
  "truncate x = (if 0 \<le> x then \<lfloor>x\<rfloor> else \<lceil>x\<rceil>)"

fun to_int32 :: "cell \<Rightarrow> cell option" where
  "to_int32 (IntV i) = map_option IntV (in_int32 i)"
| "to_int32 (FloatV x) = map_option IntV (in_int32 (truncate x))"
| "to_int32 (StrV s) = map_option IntV (Option.bind (parse_int s) in_int32)"

fun to_float64 :: "cell \<Rightarrow> cell option" where
  "to_float64 (IntV i) = Some (FloatV (of_int i))"
| "to_float64 (FloatV x) = Some (FloatV x)"
| "to_float64 (StrV s) = map_option FloatV (parse_float s)"

text \<open>The cast of one nullable value: \<open>None\<close> is the failure, \<open>Some None\<close> is null.\<close>

fun cast :: "(cell \<Rightarrow> cell option) \<Rightarrow> cell option \<Rightarrow> cell option option" where
  "cast f None = Some None"
| "cast f (Some v) = map_option Some (f v)"

text \<open>
  \<^verbatim>\<open>with_columns([pl.col(c).cast(t)])\<close> on the two columns the source casts: the
  new table, or \<open>None\<close> when the cast raises.
\<close>

definition cast_birth_year :: "table \<Rightarrow> table option" where
  "cast_birth_year t =
     those (map (\<lambda>r. map_option (\<lambda>v. r\<lparr>birth_year := v\<rparr>) (cast to_int32 (birth_year r))) t)"

definition cast_income :: "table \<Rightarrow> table option" where
  "cast_income t =
     those (map (\<lambda>r. map_option (\<lambda>v. r\<lparr>income := v\<rparr>) (cast to_float64 (income r))) t)"

section \<open>Quantiles of the library\<close>

text \<open>
  \<^verbatim>\<open>quantile(q)\<close> is called without an interpolation argument, so the library's
  default method \<^verbatim>\<open>nearest\<close> applies: of the \<open>n\<close> values that are not null, sorted,
  the result is the one at the index nearest to \<open>(n - 1) * q\<close>, a half rounded up.  A
  column without such a value has the quantile null.
\<close>

definition float_values :: "table \<Rightarrow> rat list" where
  "float_values t = concat (map (\<lambda>r. case income r of Some (FloatV x) \<Rightarrow> [x] | _ \<Rightarrow> []) t)"

definition quantile_idx :: "rat \<Rightarrow> nat \<Rightarrow> nat" where
  "quantile_idx q n = nat (round ((of_nat n - 1) * q))"

definition quantile :: "rat \<Rightarrow> rat list \<Rightarrow> rat option" where
  "quantile q xs =
     (if xs = [] then None else Some (sort xs ! quantile_idx q (length xs)))"

section \<open>The cleaning steps\<close>

definition initial_summary :: "cleaner \<Rightarrow> outcome" where
  "initial_summary s = Completed (logger_info Initial_summary s)"

definition required :: "column list" where
  "required = [Id, First_name, Last_name, Email, Birth_year, Country, Gender, Income]"

definition drop_nulls :: "cleaner \<Rightarrow> outcome" where
  "drop_nulls s =
     (let s = logger_info Drop_nulls s in
      Completed (s\<lparr>df := filter (\<lambda>r. \<not> list_ex (\<lambda>c. is_null c r) required) (df s)\<rparr>))"

text \<open>
  \<^verbatim>\<open>unique()\<close> keeps one row of each group of equal rows; the library leaves the order
  of the rows it returns open, the model keeps the order of the last occurrences.
\<close>

definition remove_duplicates :: "cleaner \<Rightarrow> outcome" where
  "remove_duplicates s =
     (let s = logger_info Remove_duplicates s in Completed (s\<lparr>df := remdups (df s)\<rparr>))"

definition clean_names :: "cleaner \<Rightarrow> outcome" where
  "clean_names s =
     (let s = logger_info Clean_names s in
      Completed (s\<lparr>df :=
        map (\<lambda>r. r\<lparr>first_name := map_option (to_lowercase \<circ> strip_chars) (first_name r),
                   last_name := map_option (to_lowercase \<circ> strip_chars) (last_name r)\<rparr>)
          (df s)\<rparr>))"

definition clean_email :: "cleaner \<Rightarrow> outcome" where
  "clean_email s =
     (let s = logger_info Clean_email s in
      Completed (s\<lparr>df := filter (\<lambda>r. str_contains email_pattern (email r)) (df s)\<rparr>))"

definition year_between :: "int \<Rightarrow> int \<Rightarrow> row \<Rightarrow> bool" where
  "year_between min_year max_year r =
     (case birth_year r of Some (IntV y) \<Rightarrow> min_year \<le> y \<and> y \<le> max_year | _ \<Rightarrow> False)"

definition clean_birth_year :: "int \<Rightarrow> int \<Rightarrow> cleaner \<Rightarrow> outcome" where
  "clean_birth_year min_year max_year s =
     (let s = logger_info Clean_birth_year s in
      case cast_birth_year (df s) of
        None \<Rightarrow> Raised CastError s
      | Some t \<Rightarrow> Completed (s\<lparr>df := filter (year_between min_year max_year) t\<rparr>))"

definition income_between :: "rat \<Rightarrow> rat \<Rightarrow> row \<Rightarrow> bool" where
  "income_between lower_bound upper_bound r =
     (case income r of Some (FloatV x) \<Rightarrow> lower_bound \<le> x \<and> x \<le> upper_bound | _ \<Rightarrow> False)"

text \<open>
  The bounds of \<^verbatim>\<open>clean_income\<close> from the two quartiles; with a null quartile the
  subtraction \<^verbatim>\<open>q3 - q1\<close> raises \<^verbatim>\<open>TypeError\<close>.
\<close>

definition bounds :: "table \<Rightarrow> (rat \<times> rat) option" where
  "bounds t =
     (case (quantile (1 / 4) (float_values t), quantile (3 / 4) (float_values t)) of
        (Some q1, Some q3) \<Rightarrow>
          (let iqr = q3 - q1 in Some (q1 - 3 / 2 * iqr, q3 + 3 / 2 * iqr))
      | _ \<Rightarrow> None)"

definition clean_income :: "cleaner \<Rightarrow> outcome" where
  "clean_income s =
     (let s = logger_info Clean_income s in
      case cast_income (df s) of
        None \<Rightarrow> Raised CastError s
      | Some t \<Rightarrow>
          (let s = s\<lparr>df := t\<rparr> in
           case bounds (df s) of
             None \<Rightarrow> Raised TypeError s
           | Some (lower_bound, upper_bound) \<Rightarrow>
               Completed (s\<lparr>df := filter (income_between lower_bound upper_bound) (df s)\<rparr>)))"

definition valid_genders :: "string list" where
  "valid_genders = [''male'', ''female'', ''other'']"

definition is_in :: "string list \<Rightarrow> string option \<Rightarrow> bool" where
  "is_in vs v = (case v of None \<Rightarrow> False | Some g \<Rightarrow> g \<in> set vs)"

definition standardize_country_gender :: "cleaner \<Rightarrow> outcome" where
  "standardize_country_gender s =
     (let s = logger_info Standardize_country_gender s;
          s = s\<lparr>df :=
            map (\<lambda>r. r\<lparr>country := map_option (to_uppercase \<circ> strip_chars) (country r),
                       gender := map_option (to_lowercase \<circ> strip_chars) (gender r)\<rparr>)
              (df s)\<rparr>
      in Completed (s\<lparr>df := filter (\<lambda>r. is_in valid_genders (gender r)) (df s)\<rparr>))"

definition save :: "cleaner \<Rightarrow> outcome" where
  "save s = (let s = logger_info Save s in Completed (s\<lparr>saved := Some (df s)\<rparr>))"

text \<open>
  \<^verbatim>\<open>run_cleaning_pipeline\<close> calls the methods one after the other; an exception of
  one of them ends the run.
\<close>

definition run_steps :: "(cleaner \<Rightarrow> outcome) list \<Rightarrow> cleaner \<Rightarrow> outcome" where
  "run_steps fs s = foldl and_then (Completed s) fs"

definition run_cleaning_pipeline :: "cleaner \<Rightarrow> outcome" where
  "run_cleaning_pipeline s =
     run_steps
       [initial_summary, drop_nulls, remove_duplicates, clean_names, clean_email,
        clean_birth_year 1900 2025, clean_income, standardize_country_gender, save] s"

text \<open>\<^verbatim>\<open>DataCleaner(filepath)\<close>: a new object on the table read from the file.\<close>

definition DataCleaner :: "table \<Rightarrow> cleaner" where
  "DataCleaner t = \<lparr>df = t, logged = [], saved = None\<rparr>"

section \<open>Notions of the specification\<close>





text \<open>The row of the first scenario of the specification.\<close>

definition ann :: row where
  "ann =
     \<lparr>row_id = Some (IntV 1), first_name = Some '' Ann '', last_name = Some ''SMITH'',
      email = Some ''a@b.com'', birth_year = Some (IntV 1990), country = Some ''us'',
      gender = Some ''Female'', income = Some (IntV 50000)\<rparr>"

text \<open>
  That row as the pipeline writes it, with the identifier and the income left open:
  such rows make up the tables of the examples below.
\<close>

definition earner :: "int \<Rightarrow> rat \<Rightarrow> row" where
  "earner i x =
     \<lparr>row_id = Some (IntV i), first_name = Some ''ann'', last_name = Some ''smith'',
      email = Some ''a@b.com'', birth_year = Some (IntV 1990), country = Some ''US'',
      gender = Some ''female'', income = Some (FloatV x)\<rparr>"

section \<open>Properties of the library operations\<close>

subsection \<open>The matcher decides the language\<close>



lemma lang_Seq_Cons:
  "c # w \<in> lang (Seq r s) \<longleftrightarrow>
     ([] \<in> lang r \<and> c # w \<in> lang s) \<or> (\<exists>u v. w = u @ v \<and> c # u \<in> lang r \<and> v \<in> lang s)"
  by (auto simp: Cons_eq_append_conv)



lemma star_Sym: "w \<in> star {[c] | c. p c} \<longleftrightarrow> list_all p w"
proof
  assume "w \<in> star {[c] | c. p c}"
  then show "list_all p w" by (induction rule: star.induct) auto
next
  assume "list_all p w"
  then show "w \<in> star {[c] | c. p c}"
  proof (induction w)
    case Nil
    show ?case by (rule star.star_nil)
  next
    case (Cons a w)
    then have "[a] @ w \<in> star {[c] | c. p c}"
      by (intro star.star_app) auto
    then show ?case by simp
  qed
qed

lemma lang_Plus_Sym: "w \<in> lang (Plus_rx (Sym p)) \<longleftrightarrow> w \<noteq> [] \<and> list_all p w"
proof (cases w)
  case Nil
  then show ?thesis by (simp add: Plus_rx_def)
next
  case (Cons a v)
  have "a # v \<in> lang (Seq (Sym p) (Star (Sym p))) \<longleftrightarrow> p a \<and> list_all p v"
    unfolding lang_Seq_Cons by (simp add: star_Sym)
  with Cons show ?thesis by (simp add: Plus_rx_def)
qed

lemma lang_Seq_iff: "w \<in> lang (Seq r s) \<longleftrightarrow> (\<exists>u v. w = u @ v \<and> u \<in> lang r \<and> v \<in> lang s)"
  by auto

lemma lang_Sym_eq: "w \<in> lang (Sym (\<lambda>c. c = d)) \<longleftrightarrow> w = [d]"
  by auto

lemma email_lang:
  "e \<in> lang email_pattern \<longleftrightarrow>
     (\<exists>a b c. e = a @ ''@'' @ b @ ''.'' @ c \<and> a \<noteq> [] \<and> list_all name_char a \<and>
        b \<noteq> [] \<and> list_all name_char b \<and> c \<noteq> [] \<and> list_all word_char c)"
proof
  assume "e \<in> lang email_pattern"
  then obtain a v1 where 1: "e = a @ v1" "a \<noteq> []" "list_all name_char a"
    and "v1 \<in> lang (Seq (Sym (\<lambda>c. c = CHR ''@''))
           (Seq (Plus_rx (Sym name_char))
             (Seq (Sym (\<lambda>c. c = CHR ''.'')) (Plus_rx (Sym word_char)))))"
    unfolding email_pattern_def lang_Seq_iff [of e] lang_Plus_Sym by blast
  then obtain v2 where 2: "v1 = ''@'' @ v2"
    and "v2 \<in> lang (Seq (Plus_rx (Sym name_char))
             (Seq (Sym (\<lambda>c. c = CHR ''.'')) (Plus_rx (Sym word_char))))"
    unfolding lang_Seq_iff [of v1] lang_Sym_eq by blast
  then obtain b v3 where 3: "v2 = b @ v3" "b \<noteq> []" "list_all name_char b"
    and "v3 \<in> lang (Seq (Sym (\<lambda>c. c = CHR ''.'')) (Plus_rx (Sym word_char)))"
    unfolding lang_Seq_iff [of v2] lang_Plus_Sym by blast
  then obtain c where 4: "v3 = ''.'' @ c" "c \<noteq> []" "list_all word_char c"
    unfolding lang_Seq_iff [of v3] lang_Sym_eq lang_Plus_Sym by blast
  from 1 2 3 4 show "\<exists>a b c. e = a @ ''@'' @ b @ ''.'' @ c \<and> a \<noteq> [] \<and> list_all name_char a \<and>
        b \<noteq> [] \<and> list_all name_char b \<and> c \<noteq> [] \<and> list_all word_char c"
    by blast
next
  assume "\<exists>a b c. e = a @ ''@'' @ b @ ''.'' @ c \<and> a \<noteq> [] \<and> list_all name_char a \<and>
        b \<noteq> [] \<and> list_all name_char b \<and> c \<noteq> [] \<and> list_all word_char c"
  then obtain a b c where e: "e = a @ ''@'' @ b @ ''.'' @ c"
    and a: "a \<in> lang (Plus_rx (Sym name_char))"
    and b: "b \<in> lang (Plus_rx (Sym name_char))"
    and c: "c \<in> lang (Plus_rx (Sym word_char))"
    unfolding lang_Plus_Sym by blast
  have "''.'' @ c \<in> lang (Seq (Sym (\<lambda>c. c = CHR ''.'')) (Plus_rx (Sym word_char)))"
    unfolding lang_Seq_iff lang_Sym_eq using c by blast
  then have "b @ ''.'' @ c \<in> lang (Seq (Plus_rx (Sym name_char))
             (Seq (Sym (\<lambda>c. c = CHR ''.'')) (Plus_rx (Sym word_char))))"
    unfolding lang_Seq_iff [of "b @ ''.'' @ c"] using b by blast
  then have "''@'' @ b @ ''.'' @ c \<in> lang (Seq (Sym (\<lambda>c. c = CHR ''@''))
           (Seq (Plus_rx (Sym name_char))
             (Seq (Sym (\<lambda>c. c = CHR ''.'')) (Plus_rx (Sym word_char)))))"
    unfolding lang_Seq_iff [of "''@'' @ b @ ''.'' @ c"] lang_Sym_eq by blast
  then show "e \<in> lang email_pattern"
    unfolding email_pattern_def e lang_Seq_iff [of "a @ ''@'' @ b @ ''.'' @ c"] using a by blast
qed

subsection \<open>Characters and text\<close>

lemma of_char_lower: "is_upper c \<Longrightarrow> (of_char (lower_char c) :: nat) = of_char c + 32"
  by (simp add: lower_char_def is_upper_def Let_def)



lemma of_char_upper: "is_lower c \<Longrightarrow> (of_char (upper_char c) :: nat) = of_char c - 32"
  by (auto simp: upper_char_def is_lower_def Let_def)










lemma strip_chars_decomp:
  "\<exists>u v. s = u @ strip_chars s @ v \<and> list_all is_whitespace u \<and> list_all is_whitespace v"
proof -
  define t where "t = dropWhile is_whitespace s"
  have "rev t = takeWhile is_whitespace (rev t) @ dropWhile is_whitespace (rev t)" by simp
  then have "t = rev (dropWhile is_whitespace (rev t)) @ rev (takeWhile is_whitespace (rev t))"
    by (metis rev_append rev_rev_ident)
  then have "s = takeWhile is_whitespace s @ strip_chars s @ rev (takeWhile is_whitespace (rev t))"
    unfolding strip_chars_def t_def [symmetric] by (simp add: t_def)
  moreover have "list_all is_whitespace (takeWhile is_whitespace s)"
    by (simp add: list_all_iff) (meson set_takeWhileD)
  moreover have "list_all is_whitespace (rev (takeWhile is_whitespace (rev t)))"
    by (simp add: list_all_iff) (meson set_takeWhileD)
  ultimately show ?thesis by blast
qed

lemma to_lowercase_no_upper: "list_all (\<lambda>c. \<not> is_upper c) (to_lowercase s)"
  using of_char_lower
  by (auto simp: to_lowercase_def list_all_iff lower_char_def is_upper_def Let_def)

lemma to_uppercase_no_lower: "list_all (\<lambda>c. \<not> is_lower c) (to_uppercase s)"
  using of_char_upper
  by (auto simp: to_uppercase_def list_all_iff upper_char_def is_lower_def Let_def)

subsection \<open>Running steps\<close>

lemma foldl_and_then_Raised: "foldl and_then (Raised e s) fs = Raised e s"
  by (induction fs) (simp_all add: and_then_def)

lemma run_steps_Nil: "run_steps [] s = Completed s"
  by (simp add: run_steps_def)

lemma run_steps_Cons:
  "run_steps (f # fs) s =
     (case f s of Completed s' \<Rightarrow> run_steps fs s' | Raised e s' \<Rightarrow> Raised e s')"
  by (simp add: run_steps_def and_then_def foldl_and_then_Raised split: outcome.splits)

lemma run_steps_append:
  "run_steps (fs @ gs) s = and_then (run_steps fs s) (run_steps gs)"
  by (cases "run_steps fs s")
    (simp_all add: run_steps_def and_then_def foldl_and_then_Raised)

subsection \<open>Strict casts of a column\<close>

lemma those_map_Some:
  "those (map f xs) = Some ys \<longleftrightarrow> list_all2 (\<lambda>x y. f x = Some y) xs ys"
  by (induction xs arbitrary: ys) (auto simp: list_all2_Cons1 split: option.splits)




lemma cast_birth_year_Some:
  "cast_birth_year t = Some t' \<longleftrightarrow>
     list_all2 (\<lambda>r r'. \<exists>v. cast to_int32 (birth_year r) = Some v \<and> r' = r\<lparr>birth_year := v\<rparr>) t t'"
  unfolding cast_birth_year_def those_map_Some
  by (rule arg_cong [where f = "\<lambda>P. list_all2 P t t'"]) (auto simp: fun_eq_iff)

lemma cast_income_Some:
  "cast_income t = Some t' \<longleftrightarrow>
     list_all2 (\<lambda>r r'. \<exists>v. cast to_float64 (income r) = Some v \<and> r' = r\<lparr>income := v\<rparr>) t t'"
  unfolding cast_income_def those_map_Some
  by (rule arg_cong [where f = "\<lambda>P. list_all2 P t t'"]) (auto simp: fun_eq_iff)

lemma cast_to_int32_cases:
  "cast to_int32 v = Some w \<Longrightarrow> (v = None \<and> w = None) \<or> (v \<noteq> None \<and> (\<exists>y. w = Some (IntV y)))"
  by (cases v; cases "the v") auto

lemma cast_to_float64_cases:
  "cast to_float64 v = Some w \<Longrightarrow> (v = None \<and> w = None) \<or> (v \<noteq> None \<and> (\<exists>x. w = Some (FloatV x)))"
  by (cases v; cases "the v") auto

lemma cast_birth_year_length: "cast_birth_year t = Some t' \<Longrightarrow> length t' = length t"
  by (auto simp: cast_birth_year_Some dest: list_all2_lengthD)

lemma cast_income_length: "cast_income t = Some t' \<Longrightarrow> length t' = length t"
  by (auto simp: cast_income_Some dest: list_all2_lengthD)



subsection \<open>The pipeline, step by step\<close>

lemma pipeline_unfold:
  "run_cleaning_pipeline s =
     (let t4 = filter (\<lambda>r. str_contains email_pattern (email r))
                 (map (\<lambda>r. r\<lparr>first_name := map_option (to_lowercase \<circ> strip_chars) (first_name r),
                            last_name := map_option (to_lowercase \<circ> strip_chars) (last_name r)\<rparr>)
                   (remdups (filter (\<lambda>r. \<not> list_ex (\<lambda>c. is_null c r) required) (df s))));
          l5 = logged s @ [Initial_summary, Drop_nulls, Remove_duplicates, Clean_names, Clean_email]
      in case cast_birth_year t4 of
           None \<Rightarrow> Raised CastError \<lparr>df = t4, logged = l5 @ [Clean_birth_year], saved = saved s\<rparr>
         | Some t5 \<Rightarrow>
            (let t5 = filter (year_between 1900 2025) t5 in
             case cast_income t5 of
               None \<Rightarrow>
                 Raised CastError
                   \<lparr>df = t5, logged = l5 @ [Clean_birth_year, Clean_income], saved = saved s\<rparr>
             | Some t6 \<Rightarrow>
                (case bounds t6 of
                   None \<Rightarrow>
                     Raised TypeError
                       \<lparr>df = t6, logged = l5 @ [Clean_birth_year, Clean_income], saved = saved s\<rparr>
                 | Some (lower_bound, upper_bound) \<Rightarrow>
                    (let t8 = filter (\<lambda>r. is_in valid_genders (gender r))
                                (map (\<lambda>r. r\<lparr>country := map_option (to_uppercase \<circ> strip_chars) (country r),
                                           gender := map_option (to_lowercase \<circ> strip_chars) (gender r)\<rparr>)
                                  (filter (income_between lower_bound upper_bound) t6))
                     in Completed
                          \<lparr>df = t8,
                           logged = l5 @ [Clean_birth_year, Clean_income,
                                          Standardize_country_gender, Save],
                           saved = Some t8\<rparr>))))"
  by (cases s)
    (simp add: run_cleaning_pipeline_def run_steps_Cons run_steps_Nil initial_summary_def
      drop_nulls_def remove_duplicates_def clean_names_def clean_email_def clean_birth_year_def
      clean_income_def standardize_country_gender_def save_def logger_info_def Let_def
      split: option.splits)

lemma logger_info_sel:
  "df (logger_info m s) = df s" "saved (logger_info m s) = saved s"
  "logged (logger_info m s) = logged s @ [m]"
  by (simp_all add: logger_info_def)



lemma pipeline_split6:
  "run_cleaning_pipeline s =
     and_then
       (run_steps [initial_summary, drop_nulls, remove_duplicates, clean_names, clean_email,
          clean_birth_year 1900 2025] s)
       (run_steps [clean_income, standardize_country_gender, save])"
  unfolding run_cleaning_pipeline_def run_steps_append [symmetric] by simp


lemma clean_income_saved:
  "clean_income s = Completed s' \<or> clean_income s = Raised e s' \<Longrightarrow> saved s' = saved s"
  by (auto simp: clean_income_def logger_info_def Let_def split: option.splits)





subsection \<open>Runs that complete\<close>

lemma pipeline_Completed:
  assumes "run_cleaning_pipeline s = Completed s'"
  obtains s6 t lower_bound upper_bound where
    "run_steps [initial_summary, drop_nulls, remove_duplicates, clean_names, clean_email,
       clean_birth_year 1900 2025] s = Completed s6"
    "cast_income (df s6) = Some t"
    "bounds t = Some (lower_bound, upper_bound)"
    "run_steps [standardize_country_gender, save]
       (logger_info Clean_income s6\<lparr>df := filter (income_between lower_bound upper_bound) t\<rparr>)
       = Completed s'"
proof -
  from assms obtain s6 where s6: "run_steps [initial_summary, drop_nulls, remove_duplicates, clean_names, clean_email,
       clean_birth_year 1900 2025] s = Completed s6"
    and r: "run_steps [clean_income, standardize_country_gender, save] s6 = Completed s'"
    unfolding pipeline_split6 by (auto simp: and_then_def split: outcome.splits)
  from r obtain s7 where s7: "clean_income s6 = Completed s7"
    and r': "run_steps [standardize_country_gender, save] s7 = Completed s'"
    unfolding run_steps_Cons [of clean_income] by (auto split: outcome.splits)
  from s7 obtain t lower_bound upper_bound where "cast_income (df s6) = Some t"
    "bounds t = Some (lower_bound, upper_bound)"
    "s7 = logger_info Clean_income s6\<lparr>df := filter (income_between lower_bound upper_bound) t\<rparr>"
    by (auto simp: clean_income_def Let_def logger_info_sel split: option.splits)
  with s6 r' show thesis using that by blast
qed

lemma pipeline_log:
  "run_cleaning_pipeline s = Completed s' \<Longrightarrow>
     logged s' = logged s @
       [Initial_summary, Drop_nulls, Remove_duplicates, Clean_names, Clean_email,
        Clean_birth_year, Clean_income, Standardize_country_gender, Save]"
  unfolding pipeline_unfold by (auto simp: Let_def split: option.splits)

lemma pipeline_log_prefix:
  "run_cleaning_pipeline s = Raised e s' \<Longrightarrow>
     logged s' = logged s @
       [Initial_summary, Drop_nulls, Remove_duplicates, Clean_names, Clean_email, Clean_birth_year]
     \<or> logged s' = logged s @
       [Initial_summary, Drop_nulls, Remove_duplicates, Clean_names, Clean_email,
        Clean_birth_year, Clean_income]"
  unfolding pipeline_unfold by (auto simp: Let_def split: option.splits)

subsection \<open>The rows of the output\<close>



lemma no_null_iff:
  "(\<not> list_ex (\<lambda>c. is_null c r) required) =
     (row_id r \<noteq> None \<and> first_name r \<noteq> None \<and> last_name r \<noteq> None \<and>
      email r \<noteq> None \<and> birth_year r \<noteq> None \<and> country r \<noteq> None \<and>
      gender r \<noteq> None \<and> income r \<noteq> None)"
  by (simp add: required_def)





subsection \<open>Quartiles\<close>



subsection \<open>A cleaned table under the pipeline\<close>













section \<open>The claims of the specification\<close>

subsection \<open>The outlier fence\<close>




subsection \<open>A second run\<close>




subsection \<open>The rows of the output file\<close>



subsection \<open>The order of the steps\<close>

text \<open>
  Claim C4.  A run of \<^verbatim>\<open>run_cleaning_pipeline\<close> that completes has gone through the
  nine steps summary, null drop, deduplication, names, e-mail, birth year, income,
  country and gender, save, once each and in this order, as the log shows.  The null
  drop comes before the two steps that cast.  The bounds of the income step are those
  of the table that the first six steps left, so they are computed after the null drop
  and the deduplication; the gender filter and the save run on the table filtered with
  these bounds.
\<close>

theorem pipeline_order:
  assumes "run_cleaning_pipeline s = Completed s'"
  shows "logged s' = logged s @
       [Initial_summary, Drop_nulls, Remove_duplicates, Clean_names, Clean_email,
        Clean_birth_year, Clean_income, Standardize_country_gender, Save]
     \<and> (\<exists>s6 t lower_bound upper_bound.
          run_steps [initial_summary, drop_nulls, remove_duplicates, clean_names, clean_email,
            clean_birth_year 1900 2025] s = Completed s6
          \<and> cast_income (df s6) = Some t
          \<and> bounds t = Some (lower_bound, upper_bound)
          \<and> run_steps [standardize_country_gender, save]
              (logger_info Clean_income s6\<lparr>df := filter (income_between lower_bound upper_bound) t\<rparr>)
              = Completed s')"
  using pipeline_log [OF assms] pipeline_Completed [OF assms] by metis

theorem pipeline_order_witness:
  "\<exists>s'. run_cleaning_pipeline (DataCleaner [ann]) = Completed s' \<and>
     logged s' =
       [Initial_summary, Drop_nulls, Remove_duplicates, Clean_names, Clean_email,
        Clean_birth_year, Clean_income, Standardize_country_gender, Save]"
proof -
  let ?s' = "\<lparr>df = [earner 1 50000],
       logged = [Initial_summary, Drop_nulls, Remove_duplicates, Clean_names, Clean_email,
                 Clean_birth_year, Clean_income, Standardize_country_gender, Save],
       saved = Some [earner 1 50000]\<rparr>"
  have h: "run_cleaning_pipeline (DataCleaner [ann]) = Completed ?s'" by code_simp
  from pipeline_order [OF h]
  have "logged ?s' = logged (DataCleaner [ann]) @
       [Initial_summary, Drop_nulls, Remove_duplicates, Clean_names, Clean_email,
        Clean_birth_year, Clean_income, Standardize_country_gender, Save]"
    by blast
  with h show ?thesis by (intro exI [of _ ?s']) (simp add: DataCleaner_def)
qed

subsection \<open>Cast failures\<close>



subsection \<open>The null drop\<close>

text \<open>
  Claim C6.  \<^verbatim>\<open>drop_nulls\<close> always completes; it keeps, unchanged and in their order,
  exactly the rows that have a value in each of the eight columns id, first name, last
  name, e-mail, birth year, country, gender and income, and so leaves at most as many
  rows as it found.
\<close>

theorem drop_nulls_removes_null_rows:
  "\<exists>s'. drop_nulls s = Completed s' \<and>
     df s' =
       filter (\<lambda>r. row_id r \<noteq> None \<and> first_name r \<noteq> None \<and> last_name r \<noteq> None \<and>
                  email r \<noteq> None \<and> birth_year r \<noteq> None \<and> country r \<noteq> None \<and>
                  gender r \<noteq> None \<and> income r \<noteq> None) (df s) \<and>
     length (df s') \<le> length (df s)"
  by (simp add: drop_nulls_def logger_info_def no_null_iff)

theorem drop_nulls_removes_null_rows_witness:
  "\<exists>s'. drop_nulls (DataCleaner [ann, ann\<lparr>email := None\<rparr>, ann\<lparr>income := None\<rparr>]) = Completed s'
     \<and> df s' = [ann]"
proof -
  from drop_nulls_removes_null_rows
    [of "DataCleaner [ann, ann\<lparr>email := None\<rparr>, ann\<lparr>income := None\<rparr>]"]
  obtain s' where
    "drop_nulls (DataCleaner [ann, ann\<lparr>email := None\<rparr>, ann\<lparr>income := None\<rparr>]) = Completed s'"
    and "df s' = [ann]"
    by (auto simp: DataCleaner_def ann_def)
  then show ?thesis by auto
qed

subsection \<open>Deduplication\<close>




subsection \<open>The e-mail filter\<close>



subsection \<open>The names\<close>



subsection \<open>The income step on an empty table\<close>

text \<open>
  Claim C10.  On a table without rows \<^verbatim>\<open>clean_income\<close> raises: the quartiles of the
  empty column are null and the subtraction of the two fails with a type error.  The
  steps that would follow do not run.
\<close>

theorem clean_income_empty_raises:
  assumes "df s = []"
  shows "clean_income s = Raised TypeError (logger_info Clean_income s)
     \<and> run_steps (clean_income # fs) s = Raised TypeError (logger_info Clean_income s)"
proof -
  have "clean_income s = Raised TypeError (logger_info Clean_income s)"
    using assms
    by (cases s)
      (simp add: clean_income_def logger_info_def cast_income_def bounds_def float_values_def
        quantile_def)
  then show ?thesis by (simp add: run_steps_Cons)
qed

theorem clean_income_empty_raises_witness:
  "run_cleaning_pipeline (DataCleaner [ann\<lparr>email := Some ''not-an-email''\<rparr>])
   = Raised TypeError
       \<lparr>df = [],
        logged = [Initial_summary, Drop_nulls, Remove_duplicates, Clean_names, Clean_email,
                  Clean_birth_year, Clean_income],
        saved = None\<rparr>"
proof -
  let ?s6 = "\<lparr>df = [],
        logged = [Initial_summary, Drop_nulls, Remove_duplicates, Clean_names, Clean_email,
                  Clean_birth_year],
        saved = None\<rparr>"
  have h: "run_steps [initial_summary, drop_nulls, remove_duplicates, clean_names, clean_email,
             clean_birth_year 1900 2025] (DataCleaner [ann\<lparr>email := Some ''not-an-email''\<rparr>])
           = Completed ?s6"
    by code_simp
  have e: "df ?s6 = []" by simp
  from clean_income_empty_raises [OF e, of "[standardize_country_gender, save]"]
  have "run_steps [clean_income, standardize_country_gender, save] ?s6
          = Raised TypeError (logger_info Clean_income ?s6)"
    by blast
  then show ?thesis
    unfolding pipeline_split6 h by (simp add: and_then_def logger_info_def)
qed

end
